theory Spec2Isabelle
  imports Complex_Main
begin

section \<open>The playback engine of music_slower\<close>

text \<open>
  The repository holds three variants of one browser script. They are referred to as
  \<^item> v1: \<^verbatim>\<open>src/unnamed/part_002\<close> (speed and reverb sliders, scrubbing by a click on the canvas),
  \<^item> v2: \<^verbatim>\<open>src/unnamed/part_001\<close>, lines 490-896 (knobs, one seek handler),
  \<^item> v3: \<^verbatim>\<open>src/unnamed/part_001\<close>, lines 1-489 (knobs, seek in three handlers, remote loading).

  A definition without a suffix embeds a function whose engine logic is the same in the three
  variants; a suffix names the variant a definition is taken from.

  JavaScript numbers are modelled by \<^typ>\<open>real\<close>: rounding, infinities and NaN are outside
  the model. The module-level variables of the script are the fields of one record. Of the
  Web Audio objects the record keeps what the engine reads and writes: whether the context
  exists, the decoded buffer's duration and first channel, the buffer source's playback rate
  and start offset, and the gains of the dry and the wet node. A thrown error is modelled
  where it depends on this state: the dereference of a variable of the script that is still
  \<^verbatim>\<open>null\<close> or \<^verbatim>\<open>undefined\<close>, and of the Web Audio API connecting to a node variable
  that is still \<^verbatim>\<open>null\<close> (TypeError), starting a source at a negative offset
  (RangeError) and stopping a source that was never started (InvalidStateError). Writes to
  the page (labels, icons, slider thumb) are not part of the state. The reading of
  \<^verbatim>\<open>audioCtx.currentTime\<close> is the parameter \<open>now\<close> of every operation that reads the clock.
\<close>

subsection \<open>State\<close>

datatype error = TypeError | RangeError | InvalidStateError | NonFinite

record buffer =
  duration :: real
  channelData :: "real list"

text \<open>A buffer source node: its playback rate, and the offset it was started at, if it was.\<close>

record bufferSource =
  rate :: real
  offset :: "real option"

record player =
  audioCtx :: bool
  audioBuffer :: "buffer option"
  sourceNode :: "bufferSource option"
  dryNode :: "real option"
  wetNode :: "real option"
  isPlaying :: bool
  startTime :: real
  pausedAt :: real
  playbackRate :: real
  reverbAmount :: real
  wasPlaying :: bool

text \<open>
  A handler either returns, with a value and the state it leaves, or throws, leaving the
  state as mutated up to the throw.
\<close>

datatype 'a result = Return 'a player | Throw error player

fun stateOf :: "'a result \<Rightarrow> player" where
  "stateOf (Return v s) = s"
| "stateOf (Throw e s) = s"

subsection \<open>Transport\<close>

text \<open>
  \<^verbatim>\<open>stopAudio\<close> (part_002:178-189, part_001:251-263, part_001:663-675): tears the source
  node down, catching what \<^verbatim>\<open>stop\<close> may throw, and resets the anchor. Its closing call of
  \<^verbatim>\<open>drawWaveform\<close> paints the canvas; where that function reads the position (v1) the
  engine is already not playing, so the read returns \<^verbatim>\<open>pausedAt\<close> and changes nothing.
\<close>

definition stopAudio :: "player \<Rightarrow> player" where
  "stopAudio s = s\<lparr>sourceNode := None, isPlaying := False, pausedAt := 0, startTime := 0\<rparr>"

text \<open>\<^verbatim>\<open>getCurrentTime\<close> (part_002:226-235, part_001:288-297, part_001:703-712).\<close>

definition getCurrentTime :: "player \<Rightarrow> real \<Rightarrow> real result" where
  "getCurrentTime s now =
     (if \<not> isPlaying s then Return (pausedAt s) s
      else if \<not> audioCtx s then Throw TypeError s
      else
        let elapsed = now - startTime s;
            time = pausedAt s + (elapsed * playbackRate s)
        in case audioBuffer s of
             None \<Rightarrow> Throw TypeError s
           | Some b \<Rightarrow>
               if time > duration b then Return (duration b) (stopAudio s)
               else Return time s)"

text \<open>The source node, if there is one, has been started.\<close>

definition started :: "player \<Rightarrow> bool" where
  "started s = (case sourceNode s of None \<Rightarrow> True | Some n \<Rightarrow> offset n \<noteq> None)"

text \<open>
  \<^verbatim>\<open>handleSpeedChange\<close> (part_002:237-256, part_001:299-322, part_001:714-728). In v1 the
  new rate is parsed from the slider's value; \<open>newRate\<close> is the parsed number. The test of
  \<^verbatim>\<open>isPlaying\<close> is made once, before \<^verbatim>\<open>getCurrentTime\<close> runs.
\<close>

definition handleSpeedChange :: "player \<Rightarrow> real \<Rightarrow> real \<Rightarrow> unit result" where
  "handleSpeedChange s now newRate =
     (if isPlaying s then
        (case getCurrentTime s now of
           Throw e s' \<Rightarrow> Throw e s'
         | Return currentBufferTime s1 \<Rightarrow>
             let s2 = s1\<lparr>pausedAt := currentBufferTime, startTime := now\<rparr>;
                 s3 = (case sourceNode s2 of
                         None \<Rightarrow> s2
                       | Some n \<Rightarrow> s2\<lparr>sourceNode := Some (n\<lparr>rate := newRate\<rparr>)\<rparr>)
             in Return () (s3\<lparr>playbackRate := newRate\<rparr>))
      else Return () (s\<lparr>playbackRate := newRate\<rparr>))"

text \<open>
  \<^verbatim>\<open>playAudio\<close> of v1 (part_002:114-140; v2 has the same body, part_001:622-648). The
  request for the next animation frame starts the progress loop, a later event.
\<close>

definition playAudio_v1 :: "player \<Rightarrow> real \<Rightarrow> unit result" where
  "playAudio_v1 s now =
     (if audioBuffer s = None then Return () s
      else if \<not> audioCtx s then Throw TypeError s
      else
        let s1 = s\<lparr>sourceNode := Some \<lparr>rate = playbackRate s, offset = None\<rparr>\<rparr>
        in if dryNode s1 = None \<or> wetNode s1 = None then Throw TypeError s1
           else
             let s2 = s1\<lparr>startTime := now - pausedAt s1\<rparr>
             in if pausedAt s2 < 0 then Throw RangeError s2
                else Return ()
                  (s2\<lparr>sourceNode := Some \<lparr>rate = playbackRate s, offset = Some (pausedAt s2)\<rparr>,
                      isPlaying := True\<rparr>))"

text \<open>
  \<^verbatim>\<open>playAudio\<close> of v3 (part_001:181-231). The start time is assigned twice; the first
  value, \<^verbatim>\<open>audioCtx.currentTime - (pausedAt / playbackRate)\<close>, is overwritten before
  anything reads it.
\<close>

definition playAudio_v3 :: "player \<Rightarrow> real \<Rightarrow> unit result" where
  "playAudio_v3 s now =
     (if audioBuffer s = None then Return () s
      else if \<not> audioCtx s then Throw TypeError s
      else
        let s1 = s\<lparr>sourceNode := Some \<lparr>rate = playbackRate s, offset = None\<rparr>\<rparr>
        in if dryNode s1 = None \<or> wetNode s1 = None then Throw TypeError s1
           else
             let s2 = s1\<lparr>startTime := now - (pausedAt s1 / playbackRate s1)\<rparr>;
                 s3 = s2\<lparr>startTime := now\<rparr>
             in if pausedAt s3 < 0 then Throw RangeError s3
                else Return ()
                  (s3\<lparr>sourceNode := Some \<lparr>rate = playbackRate s, offset = Some (pausedAt s3)\<rparr>,
                      isPlaying := True\<rparr>))"

text \<open>
  The teardown \<^verbatim>\<open>if (sourceNode) { sourceNode.stop(); sourceNode.disconnect(); sourceNode = null; }\<close>
  as v1 and v2 write it in \<^verbatim>\<open>pauseAudio\<close> and \<^verbatim>\<open>internalPause\<close>, with nothing to catch
  what \<^verbatim>\<open>stop\<close> throws.
\<close>

definition teardown :: "player \<Rightarrow> unit result" where
  "teardown s =
     (case sourceNode s of
        None \<Rightarrow> Return () s
      | Some n \<Rightarrow>
          if offset n = None then Throw InvalidStateError s
          else Return () (s\<lparr>sourceNode := None\<rparr>))"

text \<open>\<^verbatim>\<open>pauseAudio\<close> of v1 (part_002:142-176; v2 has the same body, part_001:650-661).\<close>

definition pauseAudio_v1 :: "player \<Rightarrow> real \<Rightarrow> unit result" where
  "pauseAudio_v1 s now =
     (case teardown s of
        Throw e s' \<Rightarrow> Throw e s'
      | Return u s1 \<Rightarrow>
          if \<not> audioCtx s1 then Throw TypeError s1
          else Return ()
            (s1\<lparr>pausedAt := (now - startTime s1) * playbackRate s1, isPlaying := False\<rparr>))"

text \<open>\<^verbatim>\<open>pauseAudio\<close> of v3 (part_001:233-249).\<close>

definition pauseAudio_v3 :: "player \<Rightarrow> real \<Rightarrow> unit result" where
  "pauseAudio_v3 s now =
     (let s1 = s\<lparr>sourceNode := None\<rparr>
      in if \<not> audioCtx s1 then Throw TypeError s1
         else
           let elapsedWallTime = now - startTime s1;
               s2 = s1\<lparr>pausedAt := pausedAt s1 + elapsedWallTime * playbackRate s1\<rparr>
           in case audioBuffer s2 of
                None \<Rightarrow> Throw TypeError s2
              | Some b \<Rightarrow>
                  let s3 = (if pausedAt s2 > duration b then s2\<lparr>pausedAt := duration b\<rparr> else s2)
                  in Return () (s3\<lparr>isPlaying := False\<rparr>))"

text \<open>\<^verbatim>\<open>internalPause\<close> of v1 (part_002:210-218; v2 has the same body, part_001:693-701).\<close>

definition internalPause_v1 :: "player \<Rightarrow> unit result" where
  "internalPause_v1 s =
     (case teardown s of
        Throw e s' \<Rightarrow> Throw e s'
      | Return u s1 \<Rightarrow> Return () (s1\<lparr>isPlaying := False\<rparr>))"

text \<open>\<^verbatim>\<open>internalPause\<close> of v3 (part_001:278-286), which catches what \<^verbatim>\<open>stop\<close> throws.\<close>

definition internalPause_v3 :: "player \<Rightarrow> player" where
  "internalPause_v3 s = s\<lparr>sourceNode := None, isPlaying := False\<rparr>"

text \<open>
  \<^verbatim>\<open>togglePlayPause\<close> of v1 (part_002:191-207; v2 has the same body, part_001:677-690).
  Resuming a suspended context changes no variable of the script.
\<close>

definition togglePlayPause_v1 :: "player \<Rightarrow> real \<Rightarrow> unit result" where
  "togglePlayPause_v1 s now =
     (if \<not> audioCtx s then Throw TypeError s
      else if isPlaying s then
        let elapsedWallTime = now - startTime s;
            s1 = s\<lparr>pausedAt := pausedAt s + elapsedWallTime * playbackRate s\<rparr>
        in pauseAudio_v1 s1 now
      else playAudio_v1 s now)"

text \<open>\<^verbatim>\<open>togglePlayPause\<close> of v3 (part_001:265-275).\<close>

definition togglePlayPause_v3 :: "player \<Rightarrow> real \<Rightarrow> unit result" where
  "togglePlayPause_v3 s now =
     (if \<not> audioCtx s then Throw TypeError s
      else if isPlaying s then pauseAudio_v3 s now
      else playAudio_v3 s now)"

subsection \<open>Seeking\<close>

text \<open>
  \<^verbatim>\<open>handleScrub\<close> of v1 (part_002:272-290), called with the click's \<^verbatim>\<open>clientX\<close> and the
  left edge and width of the canvas rectangle. A rectangle of width 0 makes the quotient
  \<^verbatim>\<open>x / width\<close> an infinity or NaN, which no real number stands for: the model stops there
  with \<open>NonFinite\<close> (JavaScript itself goes on with that value).
\<close>

definition handleScrub :: "player \<Rightarrow> real \<Rightarrow> real \<Rightarrow> real \<Rightarrow> real \<Rightarrow> unit result" where
  "handleScrub s now clientX rectLeft rectWidth =
     (case audioBuffer s of
        None \<Rightarrow> Return () s
      | Some b \<Rightarrow>
          let x = clientX - rectLeft;
              width = rectWidth
          in if width = 0 then Throw NonFinite s
             else
               let clickPercent = x / width;
                   seekTime = clickPercent * duration b
               in if isPlaying s then
                    (case internalPause_v1 s of
                       Throw e s' \<Rightarrow> Throw e s'
                     | Return u s1 \<Rightarrow> playAudio_v1 (s1\<lparr>pausedAt := seekTime\<rparr>) now)
                  else Return () (s\<lparr>pausedAt := seekTime\<rparr>))"

text \<open>\<^verbatim>\<open>handleSeek\<close> of v2 (part_001:742-755); \<open>seekTime\<close> is the parsed slider value.\<close>

definition handleSeek_v2 :: "player \<Rightarrow> real \<Rightarrow> real \<Rightarrow> unit result" where
  "handleSeek_v2 s now seekTime =
     (if audioBuffer s = None then Return () s
      else if isPlaying s then
        (case internalPause_v1 s of
           Throw e s' \<Rightarrow> Throw e s'
         | Return u s1 \<Rightarrow> playAudio_v1 (s1\<lparr>pausedAt := seekTime\<rparr>) now)
      else Return () (s\<lparr>pausedAt := seekTime\<rparr>))"

text \<open>
  The seek handlers of v3 (part_001:336-364): the slider calls \<^verbatim>\<open>handleSeekStart\<close> when
  the drag begins, \<^verbatim>\<open>handleSeek\<close> on every value and \<^verbatim>\<open>handleSeekEnd\<close> when it ends.
\<close>

definition handleSeekStart :: "player \<Rightarrow> player" where
  "handleSeekStart s = (if isPlaying s then internalPause_v3 (s\<lparr>wasPlaying := True\<rparr>) else s)"

definition handleSeek_v3 :: "player \<Rightarrow> real \<Rightarrow> player" where
  "handleSeek_v3 s seekTime = (if audioBuffer s = None then s else s\<lparr>pausedAt := seekTime\<rparr>)"

definition handleSeekEnd :: "player \<Rightarrow> real \<Rightarrow> unit result" where
  "handleSeekEnd s now =
     (if wasPlaying s then
        (case playAudio_v3 s now of
           Throw e s' \<Rightarrow> Throw e s'
         | Return u s' \<Rightarrow> Return () (s'\<lparr>wasPlaying := False\<rparr>))
      else Return () s)"

text \<open>One seek of v3, from the start of the drag to its end.\<close>

definition seek_v3 :: "player \<Rightarrow> real \<Rightarrow> real \<Rightarrow> unit result" where
  "seek_v3 s now seekTime = handleSeekEnd (handleSeek_v3 (handleSeekStart s) seekTime) now"

subsection \<open>Knob adapter\<close>

text \<open>
  The \<^verbatim>\<open>mousemove\<close> listener of \<^verbatim>\<open>setupKnob\<close> while a drag is on (part_001:458-472,
  part_001:863-878): the value it passes to \<^verbatim>\<open>onChange\<close>. The speed knob is set up with
  \<^verbatim>\<open>min = 0.5\<close>, \<^verbatim>\<open>max = 1.5\<close> and \<^verbatim>\<open>onChange = handleSpeedChange\<close>.
\<close>

definition setupKnob_mousemove :: "real \<Rightarrow> real \<Rightarrow> real \<Rightarrow> real \<Rightarrow> real \<Rightarrow> real" where
  "setupKnob_mousemove mn mx startValue startY clientY =
     (let deltaY = startY - clientY;
          sensitivity = 0.005 * (mx - mn);
          newValue = startValue + (deltaY * sensitivity);
          newValue = (if newValue < mn then mn else newValue);
          newValue = (if newValue > mx then mx else newValue)
      in newValue)"

subsection \<open>Reverb mix\<close>

text \<open>\<^verbatim>\<open>updateReverbMix\<close> (part_002:264-270, part_001:329-333, part_001:735-740).\<close>

definition updateReverbMix :: "player \<Rightarrow> player" where
  "updateReverbMix s =
     (if dryNode s = None \<or> wetNode s = None then s
      else s\<lparr>dryNode := Some (1 - reverbAmount s), wetNode := Some (reverbAmount s * 2)\<rparr>)"

text \<open>\<^verbatim>\<open>handleReverbChange\<close> (part_002:258-262, part_001:324-327, part_001:730-733).\<close>

definition handleReverbChange :: "player \<Rightarrow> real \<Rightarrow> player" where
  "handleReverbChange s val = updateReverbMix (s\<lparr>reverbAmount := val\<rparr>)"

text \<open>
  \<^verbatim>\<open>setupReverb\<close> (part_002:90-112): of the nodes it creates, the dry and the wet gain
  node, each with the default gain 1 of a new gain node; the impulse response of the
  convolver is not part of the state.
\<close>

definition setupReverb :: "player \<Rightarrow> unit result" where
  "setupReverb s =
     (if \<not> audioCtx s then Throw TypeError s
      else Return () (updateReverbMix (s\<lparr>dryNode := Some 1, wetNode := Some 1\<rparr>)))"

subsection \<open>Waveform\<close>

text \<open>
  Reading a typed array: \<^verbatim>\<open>data[k]\<close> is the sample for \<open>k\<close> below the length and
  \<^verbatim>\<open>undefined\<close> from there on.
\<close>

definition sampleAt :: "real list \<Rightarrow> nat \<Rightarrow> real option" where
  "sampleAt data k = (if k < length data then Some (data ! k) else None)"

text \<open>
  The two comparisons of the inner loop's body on \<^verbatim>\<open>(min, max)\<close>. Both are false for
  \<^verbatim>\<open>undefined\<close>.
\<close>

definition scanDatum :: "real option \<Rightarrow> real \<times> real \<Rightarrow> real \<times> real" where
  "scanDatum datum mm =
     (case datum of
        None \<Rightarrow> mm
      | Some d \<Rightarrow> (if d < fst mm then d else fst mm, if d > snd mm then d else snd mm))"

text \<open>The inner loop of \<^verbatim>\<open>drawWaveform\<close>, \<^verbatim>\<open>for (let j = 0; j < step; j++)\<close>, from \<open>j\<close> on.\<close>

function innerLoop :: "real list \<Rightarrow> nat \<Rightarrow> nat \<Rightarrow> nat \<Rightarrow> real \<times> real \<Rightarrow> real \<times> real" where
  "innerLoop data i step j mm =
     (if j < step then innerLoop data i step (Suc j) (scanDatum (sampleAt data ((i * step) + j)) mm)
      else mm)"
  by pat_completeness auto
termination
  by (relation "measure (\<lambda>(data, i, step, j, mm). step - j)") auto

declare innerLoop.simps [simp del]

text \<open>
  The same loop recording the indices it reads instead of the samples: the arguments of
  \<^verbatim>\<open>data[(i * step) + j]\<close> in the order of the reads.
\<close>

function innerReads :: "nat \<Rightarrow> nat \<Rightarrow> nat \<Rightarrow> nat list" where
  "innerReads i step j = (if j < step then ((i * step) + j) # innerReads i step (Suc j) else [])"
  by pat_completeness auto
termination
  by (relation "measure (\<lambda>(i, step, j). step - j)") auto

declare innerReads.simps [simp del]

text \<open>
  The outer loop, \<^verbatim>\<open>for (let i = 0; i < width; i++)\<close>, from \<open>i\<close> on: one stroke per
  column, from \<^verbatim>\<open>moveTo(i, (1 + min) * amp)\<close> to \<^verbatim>\<open>lineTo(i, (1 + max) * amp)\<close>.
\<close>

type_synonym stroke = "nat \<times> real \<times> real"

function outerLoop :: "real list \<Rightarrow> nat \<Rightarrow> nat \<Rightarrow> real \<Rightarrow> nat \<Rightarrow> stroke list" where
  "outerLoop data width step amp i =
     (if i < width then
        (let mm = innerLoop data i step 0 (1, -1)
         in (i, (1 + fst mm) * amp, (1 + snd mm) * amp) # outerLoop data width step amp (Suc i))
      else [])"
  by pat_completeness auto
termination
  by (relation "measure (\<lambda>(data, width, step, amp, i). width - i)") auto

declare outerLoop.simps [simp del]

function outerReads :: "nat \<Rightarrow> nat \<Rightarrow> nat \<Rightarrow> nat list" where
  "outerReads width step i =
     (if i < width then innerReads i step 0 @ outerReads width step (Suc i) else [])"
  by pat_completeness auto
termination
  by (relation "measure (\<lambda>(width, step, i). width - i)") auto

declare outerReads.simps [simp del]

text \<open>\<^verbatim>\<open>Math.ceil(data.length / width)\<close> for a canvas at least one pixel wide.\<close>

definition stepOf :: "nat \<Rightarrow> nat \<Rightarrow> nat" where
  "stepOf n width = nat \<lceil>real n / real width\<rceil>"

text \<open>
  \<^verbatim>\<open>drawWaveform\<close> (part_001:367-396, part_001:762-800; part_002:293-334 runs the same
  loops and then paints the playhead): the strokes of the waveform, or nothing when no
  buffer is loaded. On a canvas of width 0 the outer loop's body never runs, whatever
  \<^verbatim>\<open>step\<close> is.
\<close>

definition drawWaveform :: "player \<Rightarrow> nat \<Rightarrow> nat \<Rightarrow> stroke list option" where
  "drawWaveform s width height =
     (case audioBuffer s of
        None \<Rightarrow> None
      | Some b \<Rightarrow>
          let data = channelData b;
              amp = real height / 2
          in if width = 0 then Some []
             else Some (outerLoop data width (stepOf (length data) width) amp 0))"

text \<open>The indices of channel 0 that \<^verbatim>\<open>drawWaveform\<close> reads, in order.\<close>

definition drawWaveform_reads :: "nat \<Rightarrow> nat \<Rightarrow> nat list" where
  "drawWaveform_reads n width =
     (if width = 0 then [] else outerReads width (stepOf n width) 0)"

text \<open>
  The window of column \<open>i\<close>: the samples at the indices from \<open>i * step\<close> up to, and
  without, \<open>(i + 1) * step\<close>, as far as the channel has them.
\<close>

definition window :: "real list \<Rightarrow> nat \<Rightarrow> nat \<Rightarrow> real list" where
  "window data step i = take step (drop (i * step) data)"

subsection \<open>Sample states\<close>

text \<open>
  A ten-second buffer, and states of a player that has loaded it: stopped; playing from
  the start since device time 0; playing at rate 1.5 from position 2 since device time 2;
  paused; playing after a scrub; left by a scrub to a negative position while playing.
\<close>

definition tenSeconds :: buffer where
  "tenSeconds = \<lparr>duration = 10, channelData = [0, 1/2, -1/2, 1/4, 0, -1, 1, 0, 1/8, -1/8]\<rparr>"

definition playing0 :: player where
  "playing0 = \<lparr>audioCtx = True, audioBuffer = Some tenSeconds,
     sourceNode = Some \<lparr>rate = 1, offset = Some 0\<rparr>, dryNode = Some 1, wetNode = Some 0,
     isPlaying = True, startTime = 0, pausedAt = 0, playbackRate = 1, reverbAmount = 0,
     wasPlaying = False\<rparr>"

definition loaded0 :: player where
  "loaded0 = \<lparr>audioCtx = True, audioBuffer = Some tenSeconds,
     sourceNode = None, dryNode = Some 1, wetNode = Some 0,
     isPlaying = False, startTime = 0, pausedAt = 0, playbackRate = 1, reverbAmount = 0,
     wasPlaying = False\<rparr>"

definition playing2 :: player where
  "playing2 = \<lparr>audioCtx = True, audioBuffer = Some tenSeconds,
     sourceNode = Some \<lparr>rate = 3/2, offset = Some 0\<rparr>, dryNode = Some 1, wetNode = Some 0,
     isPlaying = True, startTime = 2, pausedAt = 2, playbackRate = 3/2, reverbAmount = 0,
     wasPlaying = False\<rparr>"

definition paused3 :: player where
  "paused3 = \<lparr>audioCtx = True, audioBuffer = Some tenSeconds,
     sourceNode = None, dryNode = Some 1, wetNode = Some 0,
     isPlaying = False, startTime = 2, pausedAt = 3, playbackRate = 3/2, reverbAmount = 0,
     wasPlaying = False\<rparr>"

definition scrubbed2 :: player where
  "scrubbed2 = \<lparr>audioCtx = True, audioBuffer = Some tenSeconds,
     sourceNode = Some \<lparr>rate = 1, offset = Some 2\<rparr>, dryNode = Some 1, wetNode = Some 0,
     isPlaying = True, startTime = 3, pausedAt = 2, playbackRate = 1, reverbAmount = 0,
     wasPlaying = False\<rparr>"

definition scrubFailed :: player where
  "scrubFailed = \<lparr>audioCtx = True, audioBuffer = Some tenSeconds,
     sourceNode = Some \<lparr>rate = 1, offset = None\<rparr>, dryNode = Some 1, wetNode = Some 0,
     isPlaying = False, startTime = 26/5, pausedAt = - 1/5, playbackRate = 1, reverbAmount = 0,
     wasPlaying = False\<rparr>"

section \<open>Auxiliary facts\<close>

subsection \<open>Scrubbing and the knob\<close>

lemma internalPause_v1_started:
  assumes "started s"
  shows "internalPause_v1 s = Return () (s\<lparr>sourceNode := None, isPlaying := False\<rparr>)"
proof (cases "sourceNode s")
  case None
  then have "s\<lparr>sourceNode := None\<rparr> = s" by simp
  with None show ?thesis by (simp add: internalPause_v1_def teardown_def)
next
  case (Some n)
  with assms show ?thesis by (simp add: internalPause_v1_def teardown_def started_def)
qed

lemma handleScrub_playing:
  assumes "audioBuffer s = Some b" and "isPlaying s" and "started s" and "w \<noteq> 0"
  shows "handleScrub s now x l w =
    playAudio_v1 (s\<lparr>sourceNode := None, isPlaying := False, pausedAt := (x - l) / w * duration b\<rparr>) now"
  using assms by (simp add: handleScrub_def internalPause_v1_started Let_def)

lemma handleScrub_not_playing:
  assumes "audioBuffer s = Some b" and "\<not> isPlaying s" and "w \<noteq> 0"
  shows "handleScrub s now x l w = Return () (s\<lparr>pausedAt := (x - l) / w * duration b\<rparr>)"
  using assms by (simp add: handleScrub_def Let_def)

lemma playAudio_v1_ready:
  assumes "audioBuffer s = Some b" and "audioCtx s" and "dryNode s = Some d" and "wetNode s = Some g"
  shows "playAudio_v1 s now =
     (if pausedAt s < 0
      then Throw RangeError (s\<lparr>sourceNode := Some \<lparr>rate = playbackRate s, offset = None\<rparr>,
              startTime := now - pausedAt s\<rparr>)
      else Return () (s\<lparr>sourceNode := Some \<lparr>rate = playbackRate s, offset = Some (pausedAt s)\<rparr>,
              startTime := now - pausedAt s, isPlaying := True\<rparr>))"
  using assms by (simp add: playAudio_v1_def Let_def)

lemma handleScrub_outcome:
  assumes "audioBuffer s = Some b" and "audioCtx s" and "dryNode s = Some d"
    and "wetNode s = Some g" and "\<not> isPlaying s \<or> started s" and "w \<noteq> 0"
  shows "handleScrub s now x l w =
     (if \<not> isPlaying s then Return () (s\<lparr>pausedAt := (x - l) / w * duration b\<rparr>)
      else if (x - l) / w * duration b < 0
      then Throw RangeError
        (s\<lparr>sourceNode := Some \<lparr>rate = playbackRate s, offset = None\<rparr>, isPlaying := False,
            pausedAt := (x - l) / w * duration b, startTime := now - (x - l) / w * duration b\<rparr>)
      else Return ()
        (s\<lparr>sourceNode := Some \<lparr>rate = playbackRate s, offset = Some ((x - l) / w * duration b)\<rparr>,
            isPlaying := True,
            pausedAt := (x - l) / w * duration b, startTime := now - (x - l) / w * duration b\<rparr>))"
proof (cases "isPlaying s")
  case True
  with assms have "started s" by simp
  with True assms show ?thesis
    by (simp add: handleScrub_playing [of s b] playAudio_v1_ready [of _ b d g])
next
  case False
  with assms show ?thesis by (simp add: handleScrub_not_playing [of s b])
qed

lemma handleSpeedChange_returns:
  assumes "audioBuffer s = Some b" and "audioCtx s"
  shows "\<exists>s'. handleSpeedChange s now r = Return () s' \<and> playbackRate s' = r"
  using assms
  by (auto simp add: handleSpeedChange_def getCurrentTime_def Let_def split: option.splits)

lemma teardown_started:
  assumes "started s"
  shows "teardown s = Return () (s\<lparr>sourceNode := None\<rparr>)"
proof (cases "sourceNode s")
  case None
  then have "s\<lparr>sourceNode := None\<rparr> = s" by simp
  with None show ?thesis by (simp add: teardown_def)
next
  case (Some n)
  with assms show ?thesis by (simp add: teardown_def started_def)
qed

lemma pauseAudio_v1_recomputes:
  assumes "audioCtx s" and "started s"
  shows "pauseAudio_v1 s now = Return ()
     (s\<lparr>sourceNode := None, pausedAt := (now - startTime s) * playbackRate s, isPlaying := False\<rparr>)"
  using assms by (simp add: pauseAudio_v1_def teardown_started)

lemma pauseAudio_v3_recomputes:
  assumes "audioCtx s" and "audioBuffer s = Some b"
  shows "pauseAudio_v3 s now = Return ()
     (s\<lparr>sourceNode := None,
         pausedAt := min (duration b) (pausedAt s + (now - startTime s) * playbackRate s),
         isPlaying := False\<rparr>)"
  using assms by (simp add: pauseAudio_v3_def Let_def min_def)

lemma toggle_not_playing_keeps:
  assumes "\<not> isPlaying s"
  shows "pausedAt (stateOf (togglePlayPause_v1 s now)) = pausedAt s"
    and "pausedAt (stateOf (togglePlayPause_v3 s now)) = pausedAt s"
  using assms
  by (simp_all add: togglePlayPause_v1_def togglePlayPause_v3_def playAudio_v1_def
      playAudio_v3_def Let_def)

lemma setupKnob_mousemove_range:
  assumes "mn \<le> mx"
  shows "mn \<le> setupKnob_mousemove mn mx startValue startY clientY
    \<and> setupKnob_mousemove mn mx startValue startY clientY \<le> mx"
proof -
  define v where "v = startValue + ((startY - clientY) * (0.005 * (mx - mn)))"
  have "setupKnob_mousemove mn mx startValue startY clientY =
      (if (if v < mn then mn else v) > mx then mx else (if v < mn then mn else v))"
    unfolding setupKnob_mousemove_def Let_def v_def by (rule refl)
  then show ?thesis
    using assms by auto
qed

subsection \<open>The step and the indices read\<close>

lemma stepOf_nonneg: "0 \<le> \<lceil>real n / real w\<rceil>"
proof -
  have "(0::real) \<le> real n / real w"
    by simp
  then have "- 1 < real n / real w"
    by linarith
  then show ?thesis
    by (simp only: zero_le_ceiling)
qed

lemma stepOf_covers:
  assumes "0 < w"
  shows "n \<le> w * stepOf n w"
proof -
  have "real n / real w \<le> of_int \<lceil>real n / real w\<rceil>"
    by (rule le_of_int_ceiling)
  moreover have "0 \<le> \<lceil>real n / real w\<rceil>"
    by (rule stepOf_nonneg)
  ultimately have "real n / real w \<le> real (stepOf n w)"
    by (simp add: stepOf_def)
  then have "real n \<le> real (stepOf n w) * real w"
    using assms by (simp add: pos_divide_le_eq)
  then have "real n \<le> real (w * stepOf n w)"
    by (simp add: mult.commute)
  then show ?thesis
    by (simp only: of_nat_le_iff)
qed

lemma stepOf_tight:
  assumes "0 < w"
  shows "w * stepOf n w < n + w"
proof -
  have "0 \<le> \<lceil>real n / real w\<rceil>"
    by (rule stepOf_nonneg)
  then have "real (stepOf n w) = of_int \<lceil>real n / real w\<rceil>"
    by (simp add: stepOf_def)
  moreover have "of_int \<lceil>real n / real w\<rceil> < real n / real w + 1"
    using ceiling_correct [of "real n / real w"] by linarith
  ultimately have "real (stepOf n w) - 1 < real n / real w"
    by simp
  then have "(real (stepOf n w) - 1) * real w < real n"
    using assms by (simp only: pos_less_divide_eq of_nat_0_less_iff)
  then have "real (w * stepOf n w) < real (n + w)"
    by (simp add: algebra_simps)
  then show ?thesis
    by (simp only: of_nat_less_iff)
qed

lemma innerReads_upt: "j \<le> step \<Longrightarrow> innerReads i step j = [i * step + j..<i * step + step]"
proof (induction i step j rule: innerReads.induct)
  case (1 i step j)
  show ?case
  proof (cases "j < step")
    case True
    with 1 show ?thesis
      by (subst innerReads.simps) (simp add: upt_conv_Cons)
  next
    case False
    with 1 show ?thesis
      by (subst innerReads.simps) simp
  qed
qed

lemma innerLoop_reads:
  "innerLoop data i step j mm = fold (\<lambda>k. scanDatum (sampleAt data k)) (innerReads i step j) mm"
proof (induction data i step j mm rule: innerLoop.induct)
  case (1 data i step j mm)
  show ?case
  proof (cases "j < step")
    case True
    with 1 show ?thesis
      by (subst innerLoop.simps, subst innerReads.simps) simp
  next
    case False
    then show ?thesis
      by (subst innerLoop.simps, subst innerReads.simps) simp
  qed
qed

lemma outerReads_upt: "i \<le> width \<Longrightarrow> outerReads width step i = [i * step..<width * step]"
proof (induction width step i rule: outerReads.induct)
  case (1 width step i)
  show ?case
  proof (cases "i < width")
    case True
    then have "Suc i * step \<le> width * step"
      by (intro mult_le_mono1) simp
    then have "i * step + step \<le> width * step"
      by (simp add: add.commute)
    then obtain k where k: "width * step = (i * step + step) + k"
      using le_Suc_ex by blast
    have parts: "[i * step..<(i * step + step) + k] =
        [i * step..<i * step + step] @ [i * step + step..<(i * step + step) + k]"
      by (rule upt_add_eq_append) simp
    have "outerReads width step i = innerReads i step 0 @ outerReads width step (Suc i)"
      using True by (subst outerReads.simps) simp
    also have "\<dots> = [i * step..<i * step + step] @ [Suc i * step..<width * step]"
      using True 1 by (simp add: innerReads_upt)
    also have "\<dots> = [i * step..<width * step]"
      using parts by (simp add: k add.commute)
    finally show ?thesis .
  next
    case False
    with 1 have "i = width" by simp
    then show ?thesis
      by (subst outerReads.simps) simp
  qed
qed

subsection \<open>The envelope\<close>

lemma scanDatum_Some: "scanDatum (Some d) (mn, mx) = (min d mn, max d mx)"
  by (simp add: scanDatum_def min_def max_def)

lemma scanDatum_None: "scanDatum None mm = mm"
  by (simp add: scanDatum_def)

lemma fold_scan_Some:
  "fold (\<lambda>d. scanDatum (Some d)) xs (mn, mx) = (Min (insert mn (set xs)), Max (insert mx (set xs)))"
proof (induction xs arbitrary: mn mx)
  case Nil
  show ?case by simp
next
  case (Cons x xs)
  have mn: "Min (insert (min x mn) (set xs)) = Min (insert mn (insert x (set xs)))"
  proof (cases "set xs = {}")
    case True
    then show ?thesis by (simp add: min.commute)
  next
    case False
    then show ?thesis by (simp add: min.assoc min.left_commute min.commute)
  qed
  have mx: "Max (insert (max x mx) (set xs)) = Max (insert mx (insert x (set xs)))"
  proof (cases "set xs = {}")
    case True
    then show ?thesis by (simp add: max.commute)
  next
    case False
    then show ?thesis by (simp add: max.assoc max.left_commute max.commute)
  qed
  show ?case
    by (simp add: scanDatum_Some Cons.IH mn mx)
qed

lemma fold_reads_inside:
  "\<forall>k\<in>set ks. k < length data \<Longrightarrow>
     fold (\<lambda>k. scanDatum (sampleAt data k)) ks mm = fold (\<lambda>d. scanDatum (Some d)) (map (nth data) ks) mm"
  by (induction ks arbitrary: mm) (simp_all add: sampleAt_def)

lemma fold_reads_outside:
  "\<forall>k\<in>set ks. length data \<le> k \<Longrightarrow> fold (\<lambda>k. scanDatum (sampleAt data k)) ks mm = mm"
  by (induction ks arbitrary: mm) (simp_all add: sampleAt_def scanDatum_None)

lemma window_nth:
  "window data step i = map (nth data) [i * step..<min (i * step + step) (length data)]"
proof (rule nth_equalityI)
  show "length (window data step i) =
      length (map (nth data) [i * step..<min (i * step + step) (length data)])"
    by (simp add: window_def)
next
  fix k
  assume "k < length (window data step i)"
  then have "k < step \<and> k < length data - i * step"
    by (simp add: window_def)
  then have k: "k < step" "i * step + k < length data"
    by arith+
  then have "i * step + k < min (i * step + step) (length data)"
    by simp
  then have "map (nth data) [i * step..<min (i * step + step) (length data)] ! k = data ! (i * step + k)"
    by (simp only: nth_map length_upt nth_upt less_diff_conv add.commute)
  moreover have "window data step i ! k = data ! (i * step + k)"
    using k by (simp add: window_def)
  ultimately show "window data step i ! k =
      map (nth data) [i * step..<min (i * step + step) (length data)] ! k"
    by simp
qed

lemma window_reads_split:
  "[i * step..<i * step + step] =
     [i * step..<min (i * step + step) (length data)] @
     [max (i * step) (min (i * step + step) (length data))..<i * step + step]"
proof (cases "i * step \<le> length data")
  case True
  then have "max (i * step) (min (i * step + step) (length data)) = min (i * step + step) (length data)"
    by simp
  moreover obtain k where "i * step + step = min (i * step + step) (length data) + k"
    using le_Suc_ex [of "min (i * step + step) (length data)" "i * step + step"] by auto
  moreover have "i * step \<le> min (i * step + step) (length data)"
    using True by simp
  ultimately show ?thesis
    using upt_add_eq_append [of "i * step" "min (i * step + step) (length data)" k] by simp
next
  case False
  then show ?thesis by simp
qed

lemma innerLoop_window:
  "innerLoop data i step 0 (mn, mx) =
     (Min (insert mn (set (window data step i))), Max (insert mx (set (window data step i))))"
proof -
  let ?f = "\<lambda>k. scanDatum (sampleAt data k)"
  let ?inside = "[i * step..<min (i * step + step) (length data)]"
  let ?outside = "[max (i * step) (min (i * step + step) (length data))..<i * step + step]"
  have "innerLoop data i step 0 (mn, mx) = fold ?f [i * step..<i * step + step] (mn, mx)"
    by (simp add: innerLoop_reads innerReads_upt)
  also have "\<dots> = fold ?f ?outside (fold ?f ?inside (mn, mx))"
    by (subst window_reads_split [of i step data]) simp
  also have "\<dots> = fold ?f ?inside (mn, mx)"
    by (rule fold_reads_outside) auto
  also have "\<dots> = fold (\<lambda>d. scanDatum (Some d)) (window data step i) (mn, mx)"
    by (simp add: fold_reads_inside window_nth)
  finally show ?thesis
    by (simp add: fold_scan_Some)
qed

lemma outerLoop_map:
  "i \<le> width \<Longrightarrow> outerLoop data width step amp i =
     map (\<lambda>i. (i, (1 + fst (innerLoop data i step 0 (1, -1))) * amp,
                   (1 + snd (innerLoop data i step 0 (1, -1))) * amp)) [i..<width]"
proof (induction data width step amp i rule: outerLoop.induct)
  case (1 data width step amp i)
  show ?case
  proof (cases "i < width")
    case True
    with 1 show ?thesis
      by (subst outerLoop.simps) (simp add: upt_conv_Cons Let_def)
  next
    case False
    then show ?thesis
      by (subst outerLoop.simps) simp
  qed
qed

lemma windows_concat: "concat (map (window data step) [0..<k]) = take (k * step) data"
proof (induction k)
  case 0
  show ?case by simp
next
  case (Suc k)
  have "take (Suc k * step) data = take (k * step + step) data"
    by (simp add: add.commute)
  also have "\<dots> = take (k * step) data @ window data step k"
    by (simp add: take_add window_def)
  finally show ?case
    using Suc by simp
qed

lemma window_length: "length (window data step i) = min step (length data - i * step)"
  by (simp add: window_def min.commute)

lemma stepOf_dvd:
  assumes "0 < w" and "w dvd n"
  shows "w * stepOf n w = n"
proof -
  from assms(2) obtain q where q: "n = w * q" ..
  have "real n / real w = real q"
    using assms(1) by (simp add: q)
  then have "stepOf n w = q"
    by (simp add: stepOf_def)
  then show ?thesis
    by (simp add: q)
qed

lemma drawWaveform_strokes:
  assumes "audioBuffer s = Some b" and "0 < w"
  shows "drawWaveform s w h =
     Some (map (\<lambda>i. (i,
        (1 + Min (insert 1 (set (window (channelData b) (stepOf (length (channelData b)) w) i)))) * (real h / 2),
        (1 + Max (insert (- 1) (set (window (channelData b) (stepOf (length (channelData b)) w) i)))) * (real h / 2)))
       [0..<w])"
  using assms by (simp add: drawWaveform_def Let_def outerLoop_map innerLoop_window)

lemma Min_insert_bound:
  assumes "xs \<noteq> []" and "\<forall>x\<in>set xs. x \<le> (c::real)"
  shows "Min (insert c (set xs)) = Min (set xs)"
proof -
  have "Min (set xs) \<in> set xs"
    using assms(1) by (intro Min_in) simp_all
  then have "Min (set xs) \<le> c"
    using assms(2) by blast
  then show ?thesis
    using assms(1) by (simp add: min_absorb2)
qed

lemma Max_insert_bound:
  assumes "xs \<noteq> []" and "\<forall>x\<in>set xs. (c::real) \<le> x"
  shows "Max (insert c (set xs)) = Max (set xs)"
proof -
  have "Max (set xs) \<in> set xs"
    using assms(1) by (intro Max_in) simp_all
  then have "c \<le> Max (set xs)"
    using assms(2) by blast
  then show ?thesis
    using assms(1) by (simp add: max_absorb2)
qed

lemma drawWaveform_reads_upt:
  assumes "0 < w"
  shows "drawWaveform_reads n w = [0..<w * stepOf n w]"
  using assms by (simp add: drawWaveform_reads_def outerReads_upt)

section \<open>Properties\<close>

subsection \<open>Rate change\<close>

text \<open>
  C1. In a playing state where reading the position at device time \<open>now\<close> gives \<open>p\<close>,
  \<open>handleSpeedChange\<close> with any new rate returns, and reading the position again at the
  same device time gives \<open>p\<close> again. The anchor afterwards is \<open>(now, p, r2)\<close>: start time
  \<open>now\<close>, held position \<open>p\<close>, rate \<open>r2\<close>. The engine is playing afterwards unless the
  first reading ran into the end of the track, and while it plays the position at a later
  time \<open>t\<close> is \<open>p + (t - now) * r2\<close>, up to the duration. The rates need not lie in
  \<open>[0.5, 1.5]\<close> for this.
\<close>

theorem handleSpeedChange_keeps_position:
  assumes "isPlaying s" and "audioCtx s" and "audioBuffer s = Some b"
    and "getCurrentTime s now = Return p s0"
  shows "\<exists>s'. handleSpeedChange s now r2 = Return () s'
      \<and> (\<exists>s''. getCurrentTime s' now = Return p s'')
      \<and> startTime s' = now \<and> pausedAt s' = p \<and> playbackRate s' = r2
      \<and> isPlaying s' = isPlaying s0
      \<and> (\<forall>t. isPlaying s0 \<and> p + (t - now) * r2 \<le> duration b
            \<longrightarrow> getCurrentTime s' t = Return (p + (t - now) * r2) s')"
  using assms
  by (auto simp add: handleSpeedChange_def getCurrentTime_def stopAudio_def Let_def
      split: if_splits option.splits)

text \<open>C1 at the ten-second buffer: played from 0 at rate 1, rate set to 1.5 at device time 2.\<close>

theorem handleSpeedChange_keeps_position_witness:
  "\<exists>s'. handleSpeedChange playing0 2 (3/2) = Return () s'
      \<and> (\<exists>s''. getCurrentTime s' 2 = Return 2 s'')
      \<and> startTime s' = 2 \<and> pausedAt s' = 2 \<and> playbackRate s' = 3/2
      \<and> isPlaying s' = isPlaying playing0
      \<and> (\<forall>t. isPlaying playing0 \<and> 2 + (t - 2) * (3/2) \<le> duration tenSeconds
            \<longrightarrow> getCurrentTime s' t = Return (2 + (t - 2) * (3/2)) s')"
  by (rule handleSpeedChange_keeps_position [of playing0 tenSeconds 2 2 playing0 "3/2"])
    (simp_all add: playing0_def tenSeconds_def getCurrentTime_def)

subsection \<open>Pause\<close>

text \<open>
  C2. The run of v1 that the property fails on. The buffer is played from the start at
  device time 0 and the rate is set to 1.5 at device time 2, which leaves the anchor
  \<open>(2, 2, 1.5)\<close>. At device time 4 the clock model gives
  \<open>pausedAt + (now - startTime) * playbackRate = 5\<close>, and \<open>getCurrentTime\<close> returns 5.
  \<open>togglePlayPause\<close> adds the elapsed part to \<open>pausedAt\<close>, then \<open>pauseAudio\<close> computes a
  position again, without the held part, and overwrites it: the paused position is 3.
\<close>

theorem togglePlayPause_v1_overwrites:
  "playAudio_v1 loaded0 0 = Return () playing0
   \<and> handleSpeedChange playing0 2 (3/2) = Return () playing2
   \<and> getCurrentTime playing2 4 = Return 5 playing2
   \<and> pausedAt playing2 + (4 - startTime playing2) * playbackRate playing2 = 5
   \<and> togglePlayPause_v1 playing2 4 = Return () paused3
   \<and> pausedAt paused3 = 3"
  by (simp add: playAudio_v1_def handleSpeedChange_def getCurrentTime_def togglePlayPause_v1_def
      pauseAudio_v1_def teardown_def loaded0_def playing0_def playing2_def paused3_def
      tenSeconds_def Let_def)

text \<open>
  In v3 the toggle only calls \<open>pauseAudio\<close>, which adds the elapsed part once and clamps
  above: the paused position is the clock model's, or the duration if that is less.
\<close>

lemma togglePlayPause_v3_holds_position:
  assumes "isPlaying s" and "audioCtx s" and "audioBuffer s = Some b"
  shows "\<exists>s'. togglePlayPause_v3 s now = Return () s'
    \<and> pausedAt s' = min (duration b) (pausedAt s + (now - startTime s) * playbackRate s)
    \<and> \<not> isPlaying s' \<and> sourceNode s' = None"
  using assms by (simp add: togglePlayPause_v3_def pauseAudio_v3_def Let_def min_def)

subsection \<open>Seek\<close>

text \<open>
  C3. The run of v1 that the property fails on. The buffer plays from the start since device
  time 0 at rate 1; at device time 5 a click at a fifth of the canvas width seeks to
  position 2. \<open>handleScrub\<close> restarts the source at offset 2, and \<open>playAudio\<close> sets the
  start time to \<open>now - pausedAt = 3\<close> while keeping \<open>pausedAt = 2\<close>: the position read at once
  at device time 5 is \<open>2 + (5 - 3) * 1 = 4\<close>, not 2.
\<close>

theorem handleScrub_playing_position:
  "handleScrub playing0 5 120 20 500 = Return () scrubbed2
   \<and> pausedAt scrubbed2 = 2
   \<and> sourceNode scrubbed2 = Some \<lparr>rate = 1, offset = Some 2\<rparr>
   \<and> getCurrentTime scrubbed2 5 = Return 4 scrubbed2"
  by (simp add: handleScrub_def internalPause_v1_def teardown_def playAudio_v1_def
      getCurrentTime_def playing0_def scrubbed2_def tenSeconds_def Let_def)

text \<open>
  In general a seek to \<open>t\<close> while v1 plays is followed by the reading \<open>t + t * playbackRate\<close>
  (as long as that is within the duration).
\<close>

lemma handleScrub_playing_reports:
  assumes "audioBuffer s = Some b" and "audioCtx s" and "dryNode s = Some d"
    and "wetNode s = Some g" and "isPlaying s" and "started s" and "w \<noteq> 0"
    and "t = (x - l) / w * duration b" and "0 \<le> t"
    and "t + t * playbackRate s \<le> duration b"
  shows "\<exists>s'. handleScrub s now x l w = Return () s'
     \<and> getCurrentTime s' now = Return (t + t * playbackRate s) s'"
  using assms
  by (simp add: handleScrub_playing [of s b] playAudio_v1_ready [of _ b d g] getCurrentTime_def Let_def)

text \<open>While v1 does not play, the position read after a seek is the seek target.\<close>

lemma handleScrub_not_playing_position:
  assumes "audioBuffer s = Some b" and "\<not> isPlaying s" and "w \<noteq> 0"
  shows "\<exists>s'. handleScrub s now x l w = Return () s'
     \<and> getCurrentTime s' now = Return ((x - l) / w * duration b) s'"
  using assms by (simp add: handleScrub_def getCurrentTime_def Let_def)

text \<open>
  In v3, whose \<open>playAudio\<close> sets the start time to \<open>now\<close>, the position read after a seek
  to a target within the buffer is the target, whether the engine was playing or not.
\<close>

lemma seek_v3_position:
  assumes "audioBuffer s = Some b" and "audioCtx s" and "dryNode s = Some d"
    and "wetNode s = Some w" and "\<not> wasPlaying s" and "0 \<le> t" and "t \<le> duration b"
  shows "\<exists>s'. seek_v3 s now t = Return () s' \<and> getCurrentTime s' now = Return t s'
     \<and> isPlaying s' = isPlaying s"
  using assms
  by (simp add: seek_v3_def handleSeekEnd_def handleSeek_v3_def handleSeekStart_def
      internalPause_v3_def playAudio_v3_def getCurrentTime_def Let_def)

subsection \<open>End of track\<close>

text \<open>
  C4. In a playing state whose computed position
  \<open>pausedAt + (now - startTime) * playbackRate\<close> exceeds the buffer's duration,
  \<open>getCurrentTime\<close> returns exactly the duration and leaves the engine stopped: not
  playing, no source node, held position and start time 0.
\<close>

theorem getCurrentTime_end_of_track:
  assumes "isPlaying s" and "audioCtx s" and "audioBuffer s = Some b"
    and "pausedAt s + (now - startTime s) * playbackRate s > duration b"
  shows "getCurrentTime s now = Return (duration b) (stopAudio s)
    \<and> \<not> isPlaying (stopAudio s) \<and> sourceNode (stopAudio s) = None
    \<and> pausedAt (stopAudio s) = 0 \<and> startTime (stopAudio s) = 0"
  using assms by (simp add: getCurrentTime_def stopAudio_def)

text \<open>C4 at the ten-second buffer, played from 0 at rate 1 and read at device time 12.\<close>

theorem getCurrentTime_end_of_track_witness:
  "getCurrentTime playing0 12 = Return 10 (stopAudio playing0)
    \<and> \<not> isPlaying (stopAudio playing0) \<and> sourceNode (stopAudio playing0) = None
    \<and> pausedAt (stopAudio playing0) = 0 \<and> startTime (stopAudio playing0) = 0"
  using getCurrentTime_end_of_track [of playing0 tenSeconds 12]
  by (simp add: playing0_def tenSeconds_def)

subsection \<open>Out-of-range input\<close>

text \<open>
  C5 as stated fails. \<open>handleSpeedChange\<close> called with rate 2 stores 2, above 1.5; a
  scrub right of the canvas rectangle stores a position above the duration, and one left
  of it a negative position.
\<close>

theorem engine_clamps_counterexample:
  "\<not> playbackRate (stateOf (handleSpeedChange playing0 2 2)) \<le> 3/2
   \<and> \<not> pausedAt (stateOf (handleScrub loaded0 0 620 20 500)) \<le> duration tenSeconds
   \<and> \<not> 0 \<le> pausedAt (stateOf (handleScrub loaded0 0 10 20 500))"
  by (simp add: handleSpeedChange_def getCurrentTime_def handleScrub_def
      loaded0_def playing0_def tenSeconds_def Let_def)

text \<open>
  C5, amended. Take a state as a load leaves it: a buffer is loaded, the audio context and
  the dry and wet gain nodes exist, and the source node of a playing engine has been
  started. Take any rate, and any click on a canvas rectangle of non-zero width, with the
  seek target \<open>t = (clientX - left) / width * duration\<close>. Then \<open>handleSpeedChange\<close> returns
  and stores the rate it is given, and \<open>handleScrub\<close> stores \<open>t\<close>: neither clamps.
  \<open>handleScrub\<close> returns, the engine playing afterwards exactly if it was before, unless
  the engine is playing and \<open>t\<close> is negative; then starting the new source throws a
  RangeError, and the engine is left not playing with the negative position stored. What
  keeps the rate within \<open>[0.5, 1.5]\<close> is the speed knob of v2 and v3, whose drag handler
  clamps the value it passes on.
\<close>

theorem seek_and_rate_stored_as_given:
  assumes "audioBuffer s = Some b" and "audioCtx s" and "dryNode s = Some d"
    and "wetNode s = Some g" and "\<not> isPlaying s \<or> started s" and "rectWidth \<noteq> 0"
  shows "(\<exists>s'. handleSpeedChange s now r = Return () s' \<and> playbackRate s' = r)
    \<and> pausedAt (stateOf (handleScrub s now clientX rectLeft rectWidth))
        = (clientX - rectLeft) / rectWidth * duration b
    \<and> (if isPlaying s \<and> (clientX - rectLeft) / rectWidth * duration b < 0
        then \<exists>s'. handleScrub s now clientX rectLeft rectWidth = Throw RangeError s'
               \<and> \<not> isPlaying s'
               \<and> pausedAt s' = (clientX - rectLeft) / rectWidth * duration b
        else \<exists>s'. handleScrub s now clientX rectLeft rectWidth = Return () s'
               \<and> isPlaying s' = isPlaying s
               \<and> pausedAt s' = (clientX - rectLeft) / rectWidth * duration b)
    \<and> 1/2 \<le> setupKnob_mousemove (1/2) (3/2) startValue startY clientY
    \<and> setupKnob_mousemove (1/2) (3/2) startValue startY clientY \<le> 3/2"
proof -
  have rate: "\<exists>s'. handleSpeedChange s now r = Return () s' \<and> playbackRate s' = r"
    by (rule handleSpeedChange_returns [OF assms(1,2)])
  have scrub: "pausedAt (stateOf (handleScrub s now clientX rectLeft rectWidth))
        = (clientX - rectLeft) / rectWidth * duration b"
    by (simp add: handleScrub_outcome [OF assms])
  have outcome: "if isPlaying s \<and> (clientX - rectLeft) / rectWidth * duration b < 0
        then \<exists>s'. handleScrub s now clientX rectLeft rectWidth = Throw RangeError s'
               \<and> \<not> isPlaying s'
               \<and> pausedAt s' = (clientX - rectLeft) / rectWidth * duration b
        else \<exists>s'. handleScrub s now clientX rectLeft rectWidth = Return () s'
               \<and> isPlaying s' = isPlaying s
               \<and> pausedAt s' = (clientX - rectLeft) / rectWidth * duration b"
    by (simp add: handleScrub_outcome [OF assms])
  have "(1/2::real) \<le> 3/2"
    by simp
  then have knob: "1/2 \<le> setupKnob_mousemove (1/2) (3/2) startValue startY clientY
      \<and> setupKnob_mousemove (1/2) (3/2) startValue startY clientY \<le> 3/2"
    by (rule setupKnob_mousemove_range)
  from rate scrub outcome knob show ?thesis
    by (intro conjI) simp_all
qed

text \<open>
  C5, amended, at the playing ten-second buffer with rate 2 and a scrub left of the canvas,
  which throws, and at the state that scrub leaves, with a scrub right of the canvas.
\<close>

theorem seek_and_rate_stored_as_given_witness:
  "((\<exists>s'. handleSpeedChange playing0 5 2 = Return () s' \<and> playbackRate s' = 2)
    \<and> pausedAt (stateOf (handleScrub playing0 5 10 20 500))
        = (10 - 20) / 500 * duration tenSeconds
    \<and> (if isPlaying playing0 \<and> (10 - 20) / 500 * duration tenSeconds < 0
        then \<exists>s'. handleScrub playing0 5 10 20 500 = Throw RangeError s'
               \<and> \<not> isPlaying s'
               \<and> pausedAt s' = (10 - 20) / 500 * duration tenSeconds
        else \<exists>s'. handleScrub playing0 5 10 20 500 = Return () s'
               \<and> isPlaying s' = isPlaying playing0
               \<and> pausedAt s' = (10 - 20) / 500 * duration tenSeconds)
    \<and> 1/2 \<le> setupKnob_mousemove (1/2) (3/2) 1 0 10
    \<and> setupKnob_mousemove (1/2) (3/2) 1 0 10 \<le> 3/2)
   \<and> ((\<exists>s'. handleSpeedChange scrubFailed 6 2 = Return () s' \<and> playbackRate s' = 2)
    \<and> pausedAt (stateOf (handleScrub scrubFailed 6 620 20 500))
        = (620 - 20) / 500 * duration tenSeconds
    \<and> (if isPlaying scrubFailed \<and> (620 - 20) / 500 * duration tenSeconds < 0
        then \<exists>s'. handleScrub scrubFailed 6 620 20 500 = Throw RangeError s'
               \<and> \<not> isPlaying s'
               \<and> pausedAt s' = (620 - 20) / 500 * duration tenSeconds
        else \<exists>s'. handleScrub scrubFailed 6 620 20 500 = Return () s'
               \<and> isPlaying s' = isPlaying scrubFailed
               \<and> pausedAt s' = (620 - 20) / 500 * duration tenSeconds)
    \<and> 1/2 \<le> setupKnob_mousemove (1/2) (3/2) 1 0 620
    \<and> setupKnob_mousemove (1/2) (3/2) 1 0 620 \<le> 3/2)"
proof (rule conjI)
  show "(\<exists>s'. handleSpeedChange playing0 5 2 = Return () s' \<and> playbackRate s' = 2)
    \<and> pausedAt (stateOf (handleScrub playing0 5 10 20 500))
        = (10 - 20) / 500 * duration tenSeconds
    \<and> (if isPlaying playing0 \<and> (10 - 20) / 500 * duration tenSeconds < 0
        then \<exists>s'. handleScrub playing0 5 10 20 500 = Throw RangeError s'
               \<and> \<not> isPlaying s'
               \<and> pausedAt s' = (10 - 20) / 500 * duration tenSeconds
        else \<exists>s'. handleScrub playing0 5 10 20 500 = Return () s'
               \<and> isPlaying s' = isPlaying playing0
               \<and> pausedAt s' = (10 - 20) / 500 * duration tenSeconds)
    \<and> 1/2 \<le> setupKnob_mousemove (1/2) (3/2) 1 0 10
    \<and> setupKnob_mousemove (1/2) (3/2) 1 0 10 \<le> 3/2"
    by (rule seek_and_rate_stored_as_given [of playing0 tenSeconds 1 0 500 5 2 10 20 1 0])
      (simp_all add: playing0_def started_def)
next
  show "(\<exists>s'. handleSpeedChange scrubFailed 6 2 = Return () s' \<and> playbackRate s' = 2)
    \<and> pausedAt (stateOf (handleScrub scrubFailed 6 620 20 500))
        = (620 - 20) / 500 * duration tenSeconds
    \<and> (if isPlaying scrubFailed \<and> (620 - 20) / 500 * duration tenSeconds < 0
        then \<exists>s'. handleScrub scrubFailed 6 620 20 500 = Throw RangeError s'
               \<and> \<not> isPlaying s'
               \<and> pausedAt s' = (620 - 20) / 500 * duration tenSeconds
        else \<exists>s'. handleScrub scrubFailed 6 620 20 500 = Return () s'
               \<and> isPlaying s' = isPlaying scrubFailed
               \<and> pausedAt s' = (620 - 20) / 500 * duration tenSeconds)
    \<and> 1/2 \<le> setupKnob_mousemove (1/2) (3/2) 1 0 620
    \<and> setupKnob_mousemove (1/2) (3/2) 1 0 620 \<le> 3/2"
    by (rule seek_and_rate_stored_as_given [of scrubFailed tenSeconds 1 0 500 6 2 620 20 1 0])
      (simp_all add: scrubFailed_def)
qed

text \<open>The scrub of that run, evaluated: it throws and leaves the state \<open>scrubFailed\<close>.\<close>

lemma handleScrub_negative_while_playing:
  "handleScrub playing0 5 10 20 500 = Throw RangeError scrubFailed"
  by (simp add: handleScrub_def internalPause_v1_def teardown_def playAudio_v1_def
      playing0_def scrubFailed_def tenSeconds_def Let_def)

subsection \<open>Repeated pause and stop\<close>

text \<open>
  C6 as stated fails. In the paused state \<open>paused3\<close>, with held position 3, calling
  \<open>pauseAudio\<close> again at device time 6 changes the held position, in v1 and in v3.
\<close>

theorem pauseAudio_not_idempotent:
  "\<not> isPlaying paused3
   \<and> pausedAt (stateOf (pauseAudio_v1 paused3 6)) \<noteq> pausedAt paused3
   \<and> pausedAt (stateOf (pauseAudio_v3 paused3 6)) \<noteq> pausedAt paused3"
  by (simp add: pauseAudio_v1_def pauseAudio_v3_def teardown_def paused3_def tenSeconds_def Let_def)

text \<open>
  C6, amended. In every state \<open>stopAudio\<close> leaves the held position 0, the engine not
  playing and no source node, so a stop of a stopped engine does not alter the held
  position. \<open>pauseAudio\<close> has no guard on the transport state: whether the engine plays
  or not, with the audio context created it computes the held position from the clock
  again. In v1, with no source node left unstarted, it sets the held position to
  \<open>(now - startTime) * playbackRate\<close>; in v3, with a buffer loaded, to the lesser of the
  duration and \<open>pausedAt + (now - startTime) * playbackRate\<close>. The guard is in
  \<open>togglePlayPause\<close>, which calls \<open>pauseAudio\<close> only while playing: on a state that is not
  playing the toggle leaves the held position as it was, and with the audio context
  created it is \<open>playAudio\<close>.
\<close>

theorem repeated_stop_and_pause:
  "pausedAt (stopAudio s) = 0 \<and> \<not> isPlaying (stopAudio s) \<and> sourceNode (stopAudio s) = None
   \<and> (audioCtx s \<and> started s \<longrightarrow>
        pauseAudio_v1 s now = Return ()
          (s\<lparr>sourceNode := None, pausedAt := (now - startTime s) * playbackRate s,
              isPlaying := False\<rparr>))
   \<and> (audioCtx s \<and> audioBuffer s = Some b \<longrightarrow>
        pauseAudio_v3 s now = Return ()
          (s\<lparr>sourceNode := None,
              pausedAt := min (duration b) (pausedAt s + (now - startTime s) * playbackRate s),
              isPlaying := False\<rparr>))
   \<and> (\<not> isPlaying s \<longrightarrow>
        pausedAt (stateOf (togglePlayPause_v1 s now)) = pausedAt s
        \<and> pausedAt (stateOf (togglePlayPause_v3 s now)) = pausedAt s)
   \<and> (\<not> isPlaying s \<and> audioCtx s \<longrightarrow>
        togglePlayPause_v1 s now = playAudio_v1 s now
        \<and> togglePlayPause_v3 s now = playAudio_v3 s now)"
proof -
  have stop: "pausedAt (stopAudio s) = 0 \<and> \<not> isPlaying (stopAudio s) \<and> sourceNode (stopAudio s) = None"
    by (simp add: stopAudio_def)
  have toggle: "togglePlayPause_v1 s now = playAudio_v1 s now
      \<and> togglePlayPause_v3 s now = playAudio_v3 s now" if "\<not> isPlaying s" and "audioCtx s"
    using that by (simp add: togglePlayPause_v1_def togglePlayPause_v3_def)
  from stop toggle show ?thesis
    using pauseAudio_v1_recomputes [of s now] pauseAudio_v3_recomputes [of s b now]
      toggle_not_playing_keeps [of s now]
    by blast
qed

text \<open>C6, amended, at the paused state \<open>paused3\<close>.\<close>

theorem repeated_stop_and_pause_witness:
  "pausedAt (stopAudio paused3) = 0 \<and> \<not> isPlaying (stopAudio paused3)
   \<and> sourceNode (stopAudio paused3) = None
   \<and> pauseAudio_v1 paused3 6 = Return ()
          (paused3\<lparr>sourceNode := None, pausedAt := (6 - startTime paused3) * playbackRate paused3,
              isPlaying := False\<rparr>)
   \<and> pauseAudio_v3 paused3 6 = Return ()
          (paused3\<lparr>sourceNode := None,
              pausedAt := min (duration tenSeconds)
                 (pausedAt paused3 + (6 - startTime paused3) * playbackRate paused3),
              isPlaying := False\<rparr>)
   \<and> pausedAt (stateOf (togglePlayPause_v1 paused3 6)) = pausedAt paused3
   \<and> pausedAt (stateOf (togglePlayPause_v3 paused3 6)) = pausedAt paused3
   \<and> togglePlayPause_v1 paused3 6 = playAudio_v1 paused3 6
   \<and> togglePlayPause_v3 paused3 6 = playAudio_v3 paused3 6"
proof -
  have ctx: "audioCtx paused3"
    by (simp add: paused3_def)
  have st: "started paused3"
    by (simp add: paused3_def started_def)
  have buf: "audioBuffer paused3 = Some tenSeconds"
    by (simp add: paused3_def)
  have np: "\<not> isPlaying paused3"
    by (simp add: paused3_def)
  from ctx st buf np show ?thesis
    using repeated_stop_and_pause [of paused3 6 tenSeconds] by blast
qed

subsection \<open>Mix\<close>

text \<open>
  C7. Once the dry and the wet gain node exist, \<open>handleReverbChange\<close> with amount \<open>a\<close>
  sets the dry gain to \<open>1 - a\<close> and the wet gain to \<open>a * 2\<close>; amount 0 gives dry 1 and wet
  0, amount 1 gives dry 0 and wet 2.
\<close>

theorem updateReverbMix_gains:
  assumes "dryNode s = Some d" and "wetNode s = Some w"
  shows "dryNode (handleReverbChange s a) = Some (1 - a)
    \<and> wetNode (handleReverbChange s a) = Some (a * 2)
    \<and> dryNode (handleReverbChange s 0) = Some 1 \<and> wetNode (handleReverbChange s 0) = Some 0
    \<and> dryNode (handleReverbChange s 1) = Some 0 \<and> wetNode (handleReverbChange s 1) = Some 2"
  using assms by (simp add: handleReverbChange_def updateReverbMix_def)

text \<open>C7 at the loaded player, with amount a quarter.\<close>

theorem updateReverbMix_gains_witness:
  "dryNode (handleReverbChange loaded0 (1/4)) = Some (1 - 1/4)
    \<and> wetNode (handleReverbChange loaded0 (1/4)) = Some (1/4 * 2)
    \<and> dryNode (handleReverbChange loaded0 0) = Some 1 \<and> wetNode (handleReverbChange loaded0 0) = Some 0
    \<and> dryNode (handleReverbChange loaded0 1) = Some 0 \<and> wetNode (handleReverbChange loaded0 1) = Some 2"
  by (rule updateReverbMix_gains [of loaded0 1 0 "1/4"]) (simp_all add: loaded0_def)

text \<open>
  Before the nodes exist the amount is only stored; \<open>setupReverb\<close> applies it when it
  creates them.
\<close>

lemma reverbAmount_applied_on_setup:
  assumes "dryNode s = None \<or> wetNode s = None" and "audioCtx s"
  shows "handleReverbChange s a = s\<lparr>reverbAmount := a\<rparr>
    \<and> (\<exists>s'. setupReverb (handleReverbChange s a) = Return () s'
          \<and> dryNode s' = Some (1 - a) \<and> wetNode s' = Some (a * 2))"
  using assms by (auto simp add: handleReverbChange_def updateReverbMix_def setupReverb_def)

subsection \<open>Waveform envelope\<close>

text \<open>
  C8 as stated fails. Ten samples on a canvas eight pixels wide give \<open>step = 2\<close>: the
  windows of columns 5 and 6, neither the last, hold no sample at all, and columns 5 to 7
  are drawn from the initial values \<open>min = 1\<close>, \<open>max = -1\<close>, that is from 100 to 0 at
  height 100.
\<close>

theorem drawWaveform_trailing_windows_empty:
  "stepOf (length (channelData tenSeconds)) 8 = 2
   \<and> window (channelData tenSeconds) 2 5 = []
   \<and> window (channelData tenSeconds) 2 6 = []
   \<and> drawWaveform loaded0 8 100 =
       Some [(0, 50, 75), (1, 25, 125/2), (2, 0, 50), (3, 50, 100), (4, 175/4, 225/4),
             (5, 100, 0), (6, 100, 0), (7, 100, 0)]"
  by (simp add: drawWaveform_def loaded0_def tenSeconds_def stepOf_def window_def Let_def
      outerLoop.simps innerLoop.simps sampleAt_def scanDatum_def)

text \<open>
  C8, amended. For a loaded buffer and a canvas \<open>w \<ge> 1\<close> pixels wide, with
  \<open>step = ceil(sampleCount / w)\<close>: \<open>drawWaveform\<close> draws \<open>w\<close> strokes; the windows of the
  columns, taken in order, make up the channel; the window of column \<open>i\<close> holds
  \<open>min step (sampleCount - i * step)\<close> samples, so that full windows are followed by at
  most one shorter one and then by empty ones; column \<open>i\<close> is drawn from
  \<open>(1 + min) * (height / 2)\<close> to \<open>(1 + max) * (height / 2)\<close> where \<open>min\<close> is the least of 1
  and the window's samples and \<open>max\<close> the greatest of -1 and the window's samples; these
  are the window's minimum and maximum when the window is not empty and its samples lie
  in \<open>[-1, 1]\<close>; and -1 is drawn at 0, 1 at the height.
\<close>

theorem drawWaveform_envelope:
  assumes "audioBuffer s = Some b" and "0 < w"
  shows "let data = channelData b; step = stepOf (length data) w; win = window data step in
    (\<exists>strokes. drawWaveform s w h = Some strokes \<and> length strokes = w
      \<and> (\<forall>i<w. strokes ! i =
            (i, (1 + Min (insert 1 (set (win i)))) * (real h / 2),
                (1 + Max (insert (- 1) (set (win i)))) * (real h / 2))))
    \<and> concat (map win [0..<w]) = data
    \<and> (\<forall>i<w. length (win i) = min step (length data - i * step))
    \<and> (\<forall>i<w. win i \<noteq> [] \<and> (\<forall>x\<in>set (win i). - 1 \<le> x \<and> x \<le> 1) \<longrightarrow>
          Min (insert 1 (set (win i))) = Min (set (win i))
          \<and> Max (insert (- 1) (set (win i))) = Max (set (win i)))
    \<and> (1 + (- 1)) * (real h / 2) = 0 \<and> (1 + 1) * (real h / 2) = real h"
proof -
  let ?data = "channelData b"
  let ?step = "stepOf (length ?data) w"
  have "take (w * ?step) ?data = ?data"
    using stepOf_covers [OF assms(2), of "length ?data"] by simp
  then have cover: "concat (map (window ?data ?step) [0..<w]) = ?data"
    by (simp add: windows_concat)
  have bounds: "Min (insert 1 (set (window ?data ?step i))) = Min (set (window ?data ?step i))
      \<and> Max (insert (- 1) (set (window ?data ?step i))) = Max (set (window ?data ?step i))"
    if "window ?data ?step i \<noteq> []" and "\<forall>x\<in>set (window ?data ?step i). - 1 \<le> x \<and> x \<le> 1" for i
    using that Min_insert_bound [of "window ?data ?step i" 1]
      Max_insert_bound [of "window ?data ?step i" "- 1"] by blast
  show ?thesis
    unfolding Let_def
    using cover bounds
    by (simp add: drawWaveform_strokes [OF assms] window_length)
qed

text \<open>C8, amended, at the ten-second buffer's ten samples on a canvas 4 wide and 100 high.\<close>

theorem drawWaveform_envelope_witness:
  "let data = channelData tenSeconds; step = stepOf (length data) 4; win = window data step in
    (\<exists>strokes. drawWaveform loaded0 4 100 = Some strokes \<and> length strokes = 4
      \<and> (\<forall>i<4. strokes ! i =
            (i, (1 + Min (insert 1 (set (win i)))) * (real 100 / 2),
                (1 + Max (insert (- 1) (set (win i)))) * (real 100 / 2))))
    \<and> concat (map win [0..<4]) = data
    \<and> (\<forall>i<4. length (win i) = min step (length data - i * step))
    \<and> (\<forall>i<4. win i \<noteq> [] \<and> (\<forall>x\<in>set (win i). - 1 \<le> x \<and> x \<le> 1) \<longrightarrow>
          Min (insert 1 (set (win i))) = Min (set (win i))
          \<and> Max (insert (- 1) (set (win i))) = Max (set (win i)))
    \<and> (1 + (- 1)) * (real 100 / 2) = 0 \<and> (1 + 1) * (real 100 / 2) = real 100"
  by (rule drawWaveform_envelope [of loaded0 tenSeconds 4 100]) (simp_all add: loaded0_def)

text \<open>The loops run on the ten samples, for a canvas 4 wide and 100 high.\<close>

lemma drawWaveform_tenSeconds:
  "drawWaveform loaded0 4 100 = Some [(0, 25, 75), (1, 0, 125/2), (2, 50, 100), (3, 175/4, 175/4)]"
  by (simp add: drawWaveform_def loaded0_def tenSeconds_def stepOf_def Let_def
      outerLoop.simps innerLoop.simps sampleAt_def scanDatum_def)

subsection \<open>Position over time\<close>

text \<open>
  C9. In a playing state with a positive rate whose position at device time \<open>t1\<close> has not
  passed the duration, reading the position at \<open>t1\<close> returns without changing the state,
  and a reading at a later device time \<open>t2\<close> returns a position that is not smaller, and
  at most the duration.
\<close>

theorem getCurrentTime_monotone:
  assumes "isPlaying s" and "audioCtx s" and "audioBuffer s = Some b"
    and "playbackRate s > 0" and "t1 \<le> t2"
    and "pausedAt s + (t1 - startTime s) * playbackRate s \<le> duration b"
  shows "\<exists>p1 p2 s2. getCurrentTime s t1 = Return p1 s \<and> getCurrentTime s t2 = Return p2 s2
      \<and> p1 \<le> p2 \<and> p2 \<le> duration b"
proof -
  have "(t1 - startTime s) * playbackRate s \<le> (t2 - startTime s) * playbackRate s"
    using assms(4,5) by (simp add: mult_right_mono)
  then show ?thesis
    using assms by (simp add: getCurrentTime_def Let_def)
qed
text \<open>C9 at the ten-second buffer, played from 0 at rate 1 and read at device times 3 and 7.\<close>

theorem getCurrentTime_monotone_witness:
  "\<exists>p1 p2 s2. getCurrentTime playing0 3 = Return p1 playing0
      \<and> getCurrentTime playing0 7 = Return p2 s2
      \<and> p1 \<le> p2 \<and> p2 \<le> duration tenSeconds"
  by (rule getCurrentTime_monotone [of playing0 tenSeconds 3 7])
    (simp_all add: playing0_def tenSeconds_def)
subsection \<open>Indices read from the channel\<close>

text \<open>
  C10 as stated fails. Ten samples on a canvas 3 pixels wide give \<open>step = 4\<close>, and column
  2 reads the indices 10 and 11, which are not below the sample count: the reads yield
  \<open>undefined\<close>, and the column's inner loop, entered at \<open>j = 2\<close> with the minimum and
  maximum of the samples 8 and 9, leaves them as they are.
\<close>

theorem drawWaveform_reads_past_end:
  "drawWaveform_reads (length (channelData tenSeconds)) 3 = [0, 1, 2, 3, 4, 5, 6, 7, 8, 9, 10, 11]
   \<and> \<not> 10 < length (channelData tenSeconds)
   \<and> sampleAt (channelData tenSeconds) 10 = None
   \<and> innerLoop (channelData tenSeconds) 2 4 2 (- 1/8, 1/8) = (- 1/8, 1/8)"
  by (simp add: drawWaveform_reads_def tenSeconds_def stepOf_def outerReads.simps
      innerReads.simps innerLoop.simps sampleAt_def scanDatum_def)

text \<open>
  C10, amended. For a canvas \<open>w \<ge> 1\<close> pixels wide the loops read exactly the indices below
  \<open>w * step\<close>, which is at least the sample count and exceeds it by less than \<open>w\<close>. All
  reads are below the sample count if and only if \<open>w\<close> divides the sample count. A read
  at or beyond the sample count yields \<open>undefined\<close> and leaves \<open>min\<close> and \<open>max\<close> as they
  are.
\<close>

theorem drawWaveform_reads_range:
  assumes "0 < w"
  shows "set (drawWaveform_reads (length data) w) = {0..<w * stepOf (length data) w}
    \<and> length data \<le> w * stepOf (length data) w
    \<and> w * stepOf (length data) w < length data + w
    \<and> (\<forall>k\<in>set (drawWaveform_reads (length data) w). k < length data) = (w dvd length data)
    \<and> (\<forall>k mm. scanDatum (sampleAt data (length data + k)) mm = mm)"
proof -
  let ?n = "length data"
  have reads: "set (drawWaveform_reads ?n w) = {0..<w * stepOf ?n w}"
    by (simp add: drawWaveform_reads_upt [OF assms])
  have cover: "?n \<le> w * stepOf ?n w"
    by (rule stepOf_covers [OF assms])
  have "(\<forall>k\<in>{0..<w * stepOf ?n w}. k < ?n) = (w * stepOf ?n w \<le> ?n)"
  proof
    assume all: "\<forall>k\<in>{0..<w * stepOf ?n w}. k < ?n"
    show "w * stepOf ?n w \<le> ?n"
    proof (cases "w * stepOf ?n w")
      case 0
      then show ?thesis by (simp only: le0)
    next
      case (Suc m)
      then have "m \<in> {0..<w * stepOf ?n w}" by simp
      with all have "m < ?n" by blast
      with Suc show ?thesis by simp
    qed
  next
    assume "w * stepOf ?n w \<le> ?n"
    then show "\<forall>k\<in>{0..<w * stepOf ?n w}. k < ?n" by auto
  qed
  also have "\<dots> = (w * stepOf ?n w = ?n)"
    using cover by auto
  also have "\<dots> = (w dvd ?n)"
    using stepOf_dvd [OF assms, of ?n] by (metis dvd_triv_left)
  finally have inrange: "(\<forall>k\<in>set (drawWaveform_reads ?n w). k < ?n) = (w dvd ?n)"
    by (simp only: reads)
  have undefined: "\<forall>k mm. scanDatum (sampleAt data (?n + k)) mm = mm"
    by (simp add: sampleAt_def scanDatum_None)
  from reads cover stepOf_tight [OF assms, of ?n] inrange undefined show ?thesis
    by blast
qed

text \<open>C10, amended, at ten samples on a canvas 3 pixels wide.\<close>

theorem drawWaveform_reads_range_witness:
  "set (drawWaveform_reads (length (channelData tenSeconds)) 3)
      = {0..<3 * stepOf (length (channelData tenSeconds)) 3}
    \<and> length (channelData tenSeconds) \<le> 3 * stepOf (length (channelData tenSeconds)) 3
    \<and> 3 * stepOf (length (channelData tenSeconds)) 3 < length (channelData tenSeconds) + 3
    \<and> (\<forall>k\<in>set (drawWaveform_reads (length (channelData tenSeconds)) 3).
          k < length (channelData tenSeconds)) = (3 dvd length (channelData tenSeconds))
    \<and> (\<forall>k mm. scanDatum (sampleAt (channelData tenSeconds) (length (channelData tenSeconds) + k)) mm = mm)"
  by (rule drawWaveform_reads_range [of 3 "channelData tenSeconds"]) simp

end
